theory Spec2Isabelle
  imports Main
begin

section \<open>The browser environment of dashboard.js\<close>

text \<open>
  The script \<^verbatim>\<open>staticfiles/dashboard/js/dashboard.js\<close> consists of two immediately invoked
  function expressions that run once at page load: the theme controller and the
  collapsible sidebar. Both work on the page only through \<^verbatim>\<open>localStorage\<close>, the
  attributes of \<^verbatim>\<open>document.documentElement\<close>, the elements found by
  \<^verbatim>\<open>document.getElementById\<close>, \<^verbatim>\<open>window.matchMedia\<close> and event listeners.
  The page is a record of these parts, and every function of the script takes the page
  and returns the page it leaves behind.
\<close>

datatype error = TypeError
  \<comment> \<open>a property read or a method call on \<^verbatim>\<open>null\<close>\<close>

datatype storage_op = GetItem string | SetItem string string
  \<comment> \<open>the calls made on \<^verbatim>\<open>localStorage\<close>, in the order they were made\<close>

datatype handler =
    ToggleTheme
  | SidebarClick "string option" "string option" "string option"
  \<comment> \<open>the two closures the script registers; the click handler closes over the constants
      \<^verbatim>\<open>sidebar\<close>, \<^verbatim>\<open>container\<close> and \<^verbatim>\<open>toggleButton\<close>\<close>

record element =
  classList :: "string list"
  attributes :: "string \<rightharpoonup> string"
  checked :: bool

record page =
  localStorage :: "string \<rightharpoonup> string"
  storage_log :: "storage_op list"
  documentElement :: "string \<rightharpoonup> string"
  elements :: "string \<rightharpoonup> element"
  matchMedia :: "(string \<Rightarrow> bool) option"
  listeners :: "(string \<times> string \<times> handler) list"

text \<open>
  \<open>documentElement\<close> holds the attributes of the root element, \<open>elements\<close> maps an id to
  the element that carries it, and a reference to an element is its id. \<open>matchMedia\<close> is
  \<open>None\<close> in a browser without \<^verbatim>\<open>window.matchMedia\<close>; otherwise it gives the
  \<^verbatim>\<open>matches\<close> flag of a media query. \<open>listeners\<close> holds target, event type and
  handler of every registered listener.
\<close>

text \<open>
  A call on \<^verbatim>\<open>null\<close> raises, and an uncaught exception ends the function that raised
  it: \<open>bind_err\<close> runs the next statement only when the one before it returned.
\<close>

definition bind_err :: "error + 'a \<Rightarrow> ('a \<Rightarrow> error + 'b) \<Rightarrow> error + 'b" where
  "bind_err r f = (case r of Inl e \<Rightarrow> Inl e | Inr x \<Rightarrow> f x)"

subsection \<open>localStorage\<close>

text \<open>
  \<^verbatim>\<open>getItem\<close> gives the stored string or \<^verbatim>\<open>null\<close>, \<^verbatim>\<open>setItem\<close> overwrites; both are
  recorded in \<open>storage_log\<close>, so that a theorem can say which calls were made.
\<close>

definition getItem :: "string \<Rightarrow> page \<Rightarrow> string option \<times> page" where
  "getItem k st = (localStorage st k, st\<lparr>storage_log := storage_log st @ [GetItem k]\<rparr>)"

definition setItem :: "string \<Rightarrow> string \<Rightarrow> page \<Rightarrow> page" where
  "setItem k v st =
     st\<lparr>localStorage := (localStorage st)(k \<mapsto> v),
        storage_log := storage_log st @ [SetItem k v]\<rparr>"

subsection \<open>The root element\<close>

definition root_getAttribute :: "string \<Rightarrow> page \<Rightarrow> string option" where
  "root_getAttribute a st = documentElement st a"

definition root_setAttribute :: "string \<Rightarrow> string \<Rightarrow> page \<Rightarrow> page" where
  "root_setAttribute a v st = st\<lparr>documentElement := (documentElement st)(a \<mapsto> v)\<rparr>"

subsection \<open>Elements by id\<close>

definition getElementById :: "string \<Rightarrow> page \<Rightarrow> string option" where
  "getElementById i st = (case elements st i of None \<Rightarrow> None | Some el \<Rightarrow> Some i)"

definition update_element ::
  "string option \<Rightarrow> (element \<Rightarrow> element) \<Rightarrow> page \<Rightarrow> error + page" where
  "update_element h f st =
     (case h of
        None \<Rightarrow> Inl TypeError
      | Some i \<Rightarrow>
          (case elements st i of
             None \<Rightarrow> Inl TypeError
           | Some el \<Rightarrow> Inr (st\<lparr>elements := (elements st)(i \<mapsto> f el)\<rparr>)))"

definition read_element :: "string option \<Rightarrow> (element \<Rightarrow> 'a) \<Rightarrow> page \<Rightarrow> error + 'a" where
  "read_element h f st =
     (case h of
        None \<Rightarrow> Inl TypeError
      | Some i \<Rightarrow> (case elements st i of None \<Rightarrow> Inl TypeError | Some el \<Rightarrow> Inr (f el)))"

text \<open>
  A class list holds each token once: \<^verbatim>\<open>add\<close> appends a token that is not there,
  \<^verbatim>\<open>remove\<close> deletes it, \<^verbatim>\<open>contains\<close> tests membership.
\<close>

definition token_add :: "string \<Rightarrow> string list \<Rightarrow> string list" where
  "token_add c xs = (if c \<in> set xs then xs else xs @ [c])"

definition token_remove :: "string \<Rightarrow> string list \<Rightarrow> string list" where
  "token_remove c xs = removeAll c xs"

definition classList_add :: "string option \<Rightarrow> string \<Rightarrow> page \<Rightarrow> error + page" where
  "classList_add h c st = update_element h (\<lambda>el. el\<lparr>classList := token_add c (classList el)\<rparr>) st"

definition classList_remove :: "string option \<Rightarrow> string \<Rightarrow> page \<Rightarrow> error + page" where
  "classList_remove h c st =
     update_element h (\<lambda>el. el\<lparr>classList := token_remove c (classList el)\<rparr>) st"

definition classList_contains :: "string option \<Rightarrow> string \<Rightarrow> page \<Rightarrow> error + bool" where
  "classList_contains h c st = read_element h (\<lambda>el. c \<in> set (classList el)) st"

definition setAttribute :: "string option \<Rightarrow> string \<Rightarrow> string \<Rightarrow> page \<Rightarrow> error + page" where
  "setAttribute h a v st = update_element h (\<lambda>el. el\<lparr>attributes := (attributes el)(a \<mapsto> v)\<rparr>) st"

definition set_checked :: "string option \<Rightarrow> bool \<Rightarrow> page \<Rightarrow> error + page" where
  "set_checked h b st = update_element h (\<lambda>el. el\<lparr>checked := b\<rparr>) st"

definition addEventListener ::
  "string option \<Rightarrow> string \<Rightarrow> handler \<Rightarrow> page \<Rightarrow> error + page" where
  "addEventListener h ty f st =
     (case h of
        None \<Rightarrow> Inl TypeError
      | Some i \<Rightarrow>
          (case elements st i of
             None \<Rightarrow> Inl TypeError
           | Some el \<Rightarrow> Inr (st\<lparr>listeners := listeners st @ [(i, ty, f)]\<rparr>)))"

section \<open>Theme management (lines 7 to 40)\<close>

text \<open>
  \<open>truthy\<close> is the test JavaScript applies to a string or \<^verbatim>\<open>null\<close> in
  \<^verbatim>\<open>if (theme)\<close> and in \<^verbatim>\<open>getAttribute('data-theme') || 'light'\<close>: \<^verbatim>\<open>null\<close> and the
  empty string are false. \<open>currentTheme\<close> and \<open>newTheme\<close> are the two constants of
  \<^verbatim>\<open>toggleTheme\<close> (lines 14 and 15).
\<close>

definition truthy :: "string option \<Rightarrow> bool" where
  "truthy v = (case v of None \<Rightarrow> False | Some s \<Rightarrow> s \<noteq> [])"

definition currentTheme :: "page \<Rightarrow> string" where
  "currentTheme st =
     (if truthy (root_getAttribute ''data-theme'' st)
      then (case root_getAttribute ''data-theme'' st of Some v \<Rightarrow> v | None \<Rightarrow> ''light'')
      else ''light'')"

definition newTheme :: "page \<Rightarrow> string" where
  "newTheme st = (if currentTheme st = ''dark'' then ''light'' else ''dark'')"

definition toggleTheme :: "page \<Rightarrow> page" where
  "toggleTheme st =
     setItem ''theme'' (newTheme st) (root_setAttribute ''data-theme'' (newTheme st) st)"

text \<open>
  The initial theme (lines 21 to 34): \<open>theme_stored\<close> is the branch taken when the stored
  theme is truthy (lines 22 to 25), \<open>theme_system\<close> the other one (lines 27 to 33), with
  \<open>prefersDark\<close> the constant of line 27. \<open>theme_init\<close> is the whole function: it looks the
  checkbox up, reads storage, takes one of the two branches and registers
  \<^verbatim>\<open>toggleTheme\<close> for the checkbox's change event if there is a checkbox.
\<close>

definition prefersDark :: "page \<Rightarrow> bool" where
  "prefersDark st =
     (case matchMedia st of
        None \<Rightarrow> False
      | Some mm \<Rightarrow> mm ''(prefers-color-scheme: dark)'')"

definition theme_stored :: "string option \<Rightarrow> string \<Rightarrow> page \<Rightarrow> error + page" where
  "theme_stored checkbox theme st =
     (let st1 = root_setAttribute ''data-theme'' theme st
      in if theme = ''dark'' \<and> checkbox \<noteq> None then set_checked checkbox True st1
         else Inr st1)"

definition theme_system :: "string option \<Rightarrow> page \<Rightarrow> error + page" where
  "theme_system checkbox st =
     (if prefersDark st
      then (let st1 = root_setAttribute ''data-theme'' ''dark'' st
            in if checkbox \<noteq> None then set_checked checkbox True st1 else Inr st1)
      else Inr st)"

definition theme_init :: "page \<Rightarrow> error + page" where
  "theme_init st0 =
     (let checkbox = getElementById ''theme-toggle-checkbox'' st0
      in case getItem ''theme'' st0 of
           (theme, st1) \<Rightarrow>
             bind_err
               (case theme of
                  None \<Rightarrow> theme_system checkbox st1
                | Some v \<Rightarrow> if v \<noteq> [] then theme_stored checkbox v st1
                            else theme_system checkbox st1)
               (\<lambda>st2. if checkbox \<noteq> None
                       then addEventListener checkbox ''change'' ToggleTheme st2
                       else Inr st2))"

section \<open>Collapsible sidebar (lines 43 to 85)\<close>

text \<open>
  \<open>collapseSidebar\<close> and \<open>expandSidebar\<close> take the three constants they close over.
  \<open>sidebar_click\<close> is the arrow function of lines 78 to 84, and \<open>sidebar_init\<close> the whole
  function: the guard of line 50 returns before storage is read.
\<close>

definition collapseSidebar ::
  "string option \<Rightarrow> string option \<Rightarrow> string option \<Rightarrow> page \<Rightarrow> error + page" where
  "collapseSidebar sidebar container toggleButton st =
     bind_err (classList_add sidebar ''is-collapsed'' st) (\<lambda>st1.
     bind_err (classList_add container ''is-collapsed'' st1) (\<lambda>st2.
     bind_err (setAttribute toggleButton ''aria-expanded'' ''false'' st2) (\<lambda>st3.
     bind_err (setAttribute toggleButton ''aria-label'' ''Expand sidebar'' st3) (\<lambda>st4.
     Inr (setItem ''sidebarState'' ''collapsed'' st4)))))"

definition expandSidebar ::
  "string option \<Rightarrow> string option \<Rightarrow> string option \<Rightarrow> page \<Rightarrow> error + page" where
  "expandSidebar sidebar container toggleButton st =
     bind_err (classList_remove sidebar ''is-collapsed'' st) (\<lambda>st1.
     bind_err (classList_remove container ''is-collapsed'' st1) (\<lambda>st2.
     bind_err (setAttribute toggleButton ''aria-expanded'' ''true'' st2) (\<lambda>st3.
     bind_err (setAttribute toggleButton ''aria-label'' ''Collapse sidebar'' st3) (\<lambda>st4.
     Inr (setItem ''sidebarState'' ''expanded'' st4)))))"

definition sidebar_click ::
  "string option \<Rightarrow> string option \<Rightarrow> string option \<Rightarrow> page \<Rightarrow> error + page" where
  "sidebar_click sidebar container toggleButton st =
     bind_err (classList_contains sidebar ''is-collapsed'' st) (\<lambda>c.
       if c then expandSidebar sidebar container toggleButton st
       else collapseSidebar sidebar container toggleButton st)"

definition sidebar_init :: "page \<Rightarrow> error + page" where
  "sidebar_init st0 =
     (let sidebar = getElementById ''main-sidebar'' st0;
          container = getElementById ''main-container'' st0;
          toggleButton = getElementById ''sidebar-toggle-button'' st0
      in if sidebar = None \<or> container = None \<or> toggleButton = None then Inr st0
         else case getItem ''sidebarState'' st0 of
                (sidebarState, st1) \<Rightarrow>
                  bind_err
                    (if sidebarState = Some ''collapsed''
                     then collapseSidebar sidebar container toggleButton st1
                     else Inr st1)
                    (\<lambda>st2. addEventListener toggleButton ''click''
                              (SidebarClick sidebar container toggleButton) st2))"

section \<open>Page load and user events\<close>

text \<open>
  Loading the page runs the two functions in the order of the file. A user event on a
  target runs the handlers registered for that target and event type, in the order they
  were registered.
\<close>

definition load :: "page \<Rightarrow> error + page" where
  "load st = bind_err (theme_init st) sidebar_init"

fun run_handler :: "handler \<Rightarrow> page \<Rightarrow> error + page" where
  "run_handler ToggleTheme st = Inr (toggleTheme st)"
| "run_handler (SidebarClick sidebar container toggleButton) st =
     sidebar_click sidebar container toggleButton st"

fun run_handlers :: "handler list \<Rightarrow> page \<Rightarrow> error + page" where
  "run_handlers [] st = Inr st"
| "run_handlers (h # hs) st = bind_err (run_handler h st) (run_handlers hs)"

definition handlers_for :: "string \<Rightarrow> string \<Rightarrow> page \<Rightarrow> handler list" where
  "handlers_for target ty st =
     map (\<lambda>(t, e, h). h) (filter (\<lambda>(t, e, h). t = target \<and> e = ty) (listeners st))"

definition dispatchEvent :: "string \<Rightarrow> string \<Rightarrow> page \<Rightarrow> error + page" where
  "dispatchEvent target ty st = run_handlers (handlers_for target ty st) st"

fun user_events :: "(string \<times> string) list \<Rightarrow> page \<Rightarrow> error + page" where
  "user_events [] st = Inr st"
| "user_events ((target, ty) # evs) st =
     bind_err (dispatchEvent target ty st) (user_events evs)"

section \<open>Closures and the elements they close over\<close>

text \<open>
  The click handler is only ever created behind the guard of line 50, so the three
  references it closes over are the elements with the ids \<^verbatim>\<open>main-sidebar\<close>,
  \<^verbatim>\<open>main-container\<close> and \<^verbatim>\<open>sidebar-toggle-button\<close>, and these exist. The script
  never removes an element, so this stays true of every listener it registers.
\<close>

definition closure_ok :: "(string \<rightharpoonup> element) \<Rightarrow> handler \<Rightarrow> bool" where
  "closure_ok els h = (case h of ToggleTheme \<Rightarrow> True
      | SidebarClick x y z \<Rightarrow>
          x = Some ''main-sidebar'' \<and> y = Some ''main-container''
          \<and> z = Some ''sidebar-toggle-button''
          \<and> els ''main-sidebar'' \<noteq> None \<and> els ''main-container'' \<noteq> None
          \<and> els ''sidebar-toggle-button'' \<noteq> None)"

definition closures_ok :: "page \<Rightarrow> bool" where
  "closures_ok st = list_all (\<lambda>(t, e, h). closure_ok (elements st) h) (listeners st)"

section \<open>An example page\<close>

text \<open>
  A dashboard page with the checkbox, the sidebar, the container and the toggle button,
  as the markup renders them before the script runs: nothing checked, the sidebar
  expanded, no \<^verbatim>\<open>data-theme\<close> attribute, no listener. The stored values and
  the system colour scheme are parameters.
\<close>

definition example_elements :: "string \<rightharpoonup> element" where
  "example_elements =
     [''theme-toggle-checkbox'' \<mapsto> \<lparr>classList = [], attributes = Map.empty, checked = False\<rparr>,
      ''main-sidebar'' \<mapsto> \<lparr>classList = [''sidebar''], attributes = Map.empty, checked = False\<rparr>,
      ''main-container'' \<mapsto>
         \<lparr>classList = [''container''], attributes = Map.empty, checked = False\<rparr>,
      ''sidebar-toggle-button'' \<mapsto>
         \<lparr>classList = [],
          attributes = [''aria-expanded'' \<mapsto> ''true'', ''aria-label'' \<mapsto> ''Collapse sidebar''],
          checked = False\<rparr>]"

definition example_page :: "(string \<rightharpoonup> string) \<Rightarrow> bool \<Rightarrow> page" where
  "example_page store dark =
     \<lparr>localStorage = store, storage_log = [], documentElement = Map.empty,
      elements = example_elements,
      matchMedia = Some (\<lambda>q. dark \<and> q = ''(prefers-color-scheme: dark)''),
      listeners = []\<rparr>"

section \<open>What each operation leaves behind\<close>

lemmas dom_defs = getItem_def setItem_def root_getAttribute_def root_setAttribute_def
  getElementById_def update_element_def read_element_def classList_add_def classList_remove_def
  classList_contains_def setAttribute_def set_checked_def addEventListener_def bind_err_def

lemmas theme_defs = theme_init_def theme_stored_def theme_system_def Let_def

lemma collapseSidebar_result:
  assumes "elements st ''main-sidebar'' = Some s" "elements st ''main-container'' = Some c"
    "elements st ''sidebar-toggle-button'' = Some b"
  shows "collapseSidebar (Some ''main-sidebar'') (Some ''main-container'')
           (Some ''sidebar-toggle-button'') st =
         Inr (st\<lparr>elements := (elements st)
                  (''main-sidebar'' \<mapsto> s\<lparr>classList := token_add ''is-collapsed'' (classList s)\<rparr>,
                   ''main-container'' \<mapsto> c\<lparr>classList := token_add ''is-collapsed'' (classList c)\<rparr>,
                   ''sidebar-toggle-button'' \<mapsto>
                      b\<lparr>attributes := (attributes b)(''aria-expanded'' \<mapsto> ''false'',
                                                      ''aria-label'' \<mapsto> ''Expand sidebar'')\<rparr>),
                localStorage := (localStorage st)(''sidebarState'' \<mapsto> ''collapsed''),
                storage_log := storage_log st @ [SetItem ''sidebarState'' ''collapsed'']\<rparr>)"
  using assms by (simp add: collapseSidebar_def dom_defs)

lemma expandSidebar_result:
  assumes "elements st ''main-sidebar'' = Some s" "elements st ''main-container'' = Some c"
    "elements st ''sidebar-toggle-button'' = Some b"
  shows "expandSidebar (Some ''main-sidebar'') (Some ''main-container'')
           (Some ''sidebar-toggle-button'') st =
         Inr (st\<lparr>elements := (elements st)
                  (''main-sidebar'' \<mapsto> s\<lparr>classList := token_remove ''is-collapsed'' (classList s)\<rparr>,
                   ''main-container'' \<mapsto> c\<lparr>classList := token_remove ''is-collapsed'' (classList c)\<rparr>,
                   ''sidebar-toggle-button'' \<mapsto>
                      b\<lparr>attributes := (attributes b)(''aria-expanded'' \<mapsto> ''true'',
                                                      ''aria-label'' \<mapsto> ''Collapse sidebar'')\<rparr>),
                localStorage := (localStorage st)(''sidebarState'' \<mapsto> ''expanded''),
                storage_log := storage_log st @ [SetItem ''sidebarState'' ''expanded'']\<rparr>)"
  using assms by (simp add: expandSidebar_def dom_defs)

lemma sidebar_click_result:
  assumes "elements st ''main-sidebar'' = Some s" "elements st ''main-container'' = Some c"
    "elements st ''sidebar-toggle-button'' = Some b"
  shows "sidebar_click (Some ''main-sidebar'') (Some ''main-container'')
           (Some ''sidebar-toggle-button'') st =
         (if ''is-collapsed'' \<in> set (classList s)
          then expandSidebar (Some ''main-sidebar'') (Some ''main-container'')
                 (Some ''sidebar-toggle-button'') st
          else collapseSidebar (Some ''main-sidebar'') (Some ''main-container'')
                 (Some ''sidebar-toggle-button'') st)"
  using assms by (simp add: sidebar_click_def classList_contains_def read_element_def bind_err_def)

lemma sidebar_init_missing:
  "elements st ''main-sidebar'' = None \<or> elements st ''main-container'' = None
     \<or> elements st ''sidebar-toggle-button'' = None \<Longrightarrow> sidebar_init st = Inr st"
  by (auto simp add: sidebar_init_def getElementById_def)

lemma sidebar_init_collapsed:
  assumes "elements st ''main-sidebar'' = Some s" "elements st ''main-container'' = Some c"
    "elements st ''sidebar-toggle-button'' = Some b"
    "localStorage st ''sidebarState'' = Some ''collapsed''"
  shows "sidebar_init st =
         Inr (st\<lparr>elements := (elements st)
                  (''main-sidebar'' \<mapsto> s\<lparr>classList := token_add ''is-collapsed'' (classList s)\<rparr>,
                   ''main-container'' \<mapsto> c\<lparr>classList := token_add ''is-collapsed'' (classList c)\<rparr>,
                   ''sidebar-toggle-button'' \<mapsto>
                      b\<lparr>attributes := (attributes b)(''aria-expanded'' \<mapsto> ''false'',
                                                      ''aria-label'' \<mapsto> ''Expand sidebar'')\<rparr>),
                localStorage := (localStorage st)(''sidebarState'' \<mapsto> ''collapsed''),
                storage_log := storage_log st @
                  [GetItem ''sidebarState'', SetItem ''sidebarState'' ''collapsed''],
                listeners := listeners st @
                  [(''sidebar-toggle-button'', ''click'',
                    SidebarClick (Some ''main-sidebar'') (Some ''main-container'')
                      (Some ''sidebar-toggle-button''))]\<rparr>)"
  using assms by (simp add: sidebar_init_def collapseSidebar_def dom_defs)

lemma sidebar_init_other:
  assumes "elements st ''main-sidebar'' = Some s" "elements st ''main-container'' = Some c"
    "elements st ''sidebar-toggle-button'' = Some b"
    "localStorage st ''sidebarState'' \<noteq> Some ''collapsed''"
  shows "sidebar_init st =
         Inr (st\<lparr>storage_log := storage_log st @ [GetItem ''sidebarState''],
                listeners := listeners st @
                  [(''sidebar-toggle-button'', ''click'',
                    SidebarClick (Some ''main-sidebar'') (Some ''main-container'')
                      (Some ''sidebar-toggle-button''))]\<rparr>)"
  using assms by (simp add: sidebar_init_def dom_defs)

lemma theme_init_returns: "\<exists>st'. theme_init st = Inr st'"
  by (auto simp add: theme_defs dom_defs split: option.splits)

lemma theme_init_frame:
  assumes "theme_init st = Inr st'"
  shows "localStorage st' = localStorage st"
    and "storage_log st' = storage_log st @ [GetItem ''theme'']"
    and "matchMedia st' = matchMedia st"
    and "i \<noteq> ''theme-toggle-checkbox'' \<Longrightarrow> elements st' i = elements st i"
    and "listeners st' = listeners st @
           (if elements st ''theme-toggle-checkbox'' = None then []
            else [(''theme-toggle-checkbox'', ''change'', ToggleTheme)])"
  using assms
  by (auto simp add: theme_defs dom_defs split: option.splits if_splits sum.splits)

lemma theme_init_attribute:
  assumes "theme_init st = Inr st'"
  shows "documentElement st' =
           (if truthy (localStorage st ''theme'')
            then (documentElement st)(''data-theme'' := localStorage st ''theme'')
            else if prefersDark st then (documentElement st)(''data-theme'' \<mapsto> ''dark'')
            else documentElement st)"
  using assms
  by (auto simp add: theme_defs dom_defs truthy_def prefersDark_def split: option.splits if_splits sum.splits)

lemma theme_init_checkbox:
  assumes "theme_init st = Inr st'"
  shows "elements st' ''theme-toggle-checkbox'' =
           map_option (\<lambda>el. el\<lparr>checked := checked el \<or>
              (if truthy (localStorage st ''theme'') then localStorage st ''theme'' = Some ''dark''
               else prefersDark st)\<rparr>) (elements st ''theme-toggle-checkbox'')"
  using assms
  by (auto simp add: theme_defs dom_defs truthy_def prefersDark_def split: option.splits if_splits sum.splits)

lemma toggleTheme_frame:
  "listeners (toggleTheme st) = listeners st" "elements (toggleTheme st) = elements st"
  by (simp_all add: toggleTheme_def dom_defs)

lemma sidebar_click_frame:
  assumes "elements st ''main-sidebar'' \<noteq> None" "elements st ''main-container'' \<noteq> None"
    "elements st ''sidebar-toggle-button'' \<noteq> None"
  shows "\<exists>st'. sidebar_click (Some ''main-sidebar'') (Some ''main-container'')
           (Some ''sidebar-toggle-button'') st = Inr st'
         \<and> listeners st' = listeners st \<and> dom (elements st') = dom (elements st)"
proof -
  from assms obtain s c b where el: "elements st ''main-sidebar'' = Some s"
    "elements st ''main-container'' = Some c" "elements st ''sidebar-toggle-button'' = Some b"
    by auto
  have d: "''main-sidebar'' \<in> dom (elements st)" "''main-container'' \<in> dom (elements st)"
    "''sidebar-toggle-button'' \<in> dom (elements st)"
    using el by auto
  show ?thesis
    using d by (simp add: sidebar_click_result [OF el] expandSidebar_result [OF el]
      collapseSidebar_result [OF el] insert_absorb)
qed

lemma run_handler_frame:
  assumes "case h of ToggleTheme \<Rightarrow> True
      | SidebarClick x y z \<Rightarrow>
          x = Some ''main-sidebar'' \<and> y = Some ''main-container''
          \<and> z = Some ''sidebar-toggle-button''
          \<and> elements st ''main-sidebar'' \<noteq> None \<and> elements st ''main-container'' \<noteq> None
          \<and> elements st ''sidebar-toggle-button'' \<noteq> None"
  shows "\<exists>st'. run_handler h st = Inr st' \<and> listeners st' = listeners st
           \<and> dom (elements st') = dom (elements st)"
proof (cases h)
  case ToggleTheme
  then show ?thesis by (simp add: toggleTheme_frame)
next
  case (SidebarClick x y z)
  with assms show ?thesis using sidebar_click_frame [of st] by simp
qed

lemma closure_ok_dom: "dom els' = dom els \<Longrightarrow> closure_ok els' h = closure_ok els h"
  by (auto simp add: closure_ok_def domIff split: handler.splits dest: equalityD1 equalityD2)

lemma closure_ok_dom_fun: "dom els' = dom els \<Longrightarrow> closure_ok els' = closure_ok els"
  by (rule ext) (rule closure_ok_dom)

lemma run_handler_ok:
  assumes "closure_ok (elements st) h"
  shows "\<exists>st'. run_handler h st = Inr st' \<and> listeners st' = listeners st
           \<and> dom (elements st') = dom (elements st)"
  using assms run_handler_frame [where h = h and st = st] by (simp add: closure_ok_def)

lemma run_handlers_ok:
  "list_all (closure_ok (elements st)) hs \<Longrightarrow>
   \<exists>st'. run_handlers hs st = Inr st' \<and> listeners st' = listeners st
         \<and> dom (elements st') = dom (elements st)"
proof (induction hs arbitrary: st)
  case Nil
  then show ?case by simp
next
  case (Cons h hs)
  from Cons.prems have h: "closure_ok (elements st) h"
    and hs: "list_all (closure_ok (elements st)) hs" by simp_all
  from run_handler_ok [OF h] obtain st1 where st1: "run_handler h st = Inr st1"
    "listeners st1 = listeners st" "dom (elements st1) = dom (elements st)" by blast
  from hs st1(3) have "list_all (closure_ok (elements st1)) hs"
    by (simp add: closure_ok_dom_fun [of "elements st1" "elements st"])
  from Cons.IH [OF this] obtain st2 where "run_handlers hs st1 = Inr st2"
    "listeners st2 = listeners st1" "dom (elements st2) = dom (elements st1)" by blast
  with st1 show ?case by (simp add: bind_err_def)
qed

lemma handlers_for_ok:
  "closures_ok st \<Longrightarrow> list_all (closure_ok (elements st)) (handlers_for target ty st)"
  by (auto simp add: closures_ok_def handlers_for_def list_all_iff)

lemma dispatchEvent_ok:
  assumes "closures_ok st"
  shows "\<exists>st'. dispatchEvent target ty st = Inr st' \<and> listeners st' = listeners st
           \<and> dom (elements st') = dom (elements st)"
  unfolding dispatchEvent_def by (rule run_handlers_ok [OF handlers_for_ok [OF assms]])

lemma closures_ok_cong:
  "listeners st' = listeners st \<Longrightarrow> dom (elements st') = dom (elements st) \<Longrightarrow>
   closures_ok st' = closures_ok st"
  by (simp add: closures_ok_def closure_ok_dom_fun [of "elements st'" "elements st"])

lemma user_events_ok:
  "closures_ok st \<Longrightarrow>
   \<exists>st'. user_events evs st = Inr st' \<and> listeners st' = listeners st
         \<and> dom (elements st') = dom (elements st)"
proof (induction evs arbitrary: st)
  case Nil
  then show ?case by simp
next
  case (Cons ev evs)
  obtain target ty where ev: "ev = (target, ty)" by (cases ev)
  from dispatchEvent_ok [OF Cons.prems, of target ty] obtain st1 where
    st1: "dispatchEvent target ty st = Inr st1" "listeners st1 = listeners st"
      "dom (elements st1) = dom (elements st)" by blast
  from Cons.prems have "closures_ok st1" by (simp add: closures_ok_cong [OF st1(2,3)])
  from Cons.IH [OF this] obtain st2 where "user_events evs st1 = Inr st2"
    "listeners st2 = listeners st1" "dom (elements st2) = dom (elements st1)" by blast
  with st1 ev show ?case by (simp add: bind_err_def)
qed

lemma theme_init_dom:
  assumes "theme_init st = Inr st'"
  shows "dom (elements st') = dom (elements st)"
  using assms
  by (auto simp add: theme_defs dom_defs split: option.splits if_splits sum.splits)

lemma sidebar_init_returns:
  "\<exists>st'. sidebar_init st = Inr st' \<and> dom (elements st') = dom (elements st)
     \<and> localStorage st' = localStorage st \<and> documentElement st' = documentElement st
     \<and> elements st' ''theme-toggle-checkbox'' = elements st ''theme-toggle-checkbox''
     \<and> listeners st' = listeners st @
         (if elements st ''main-sidebar'' = None \<or> elements st ''main-container'' = None
             \<or> elements st ''sidebar-toggle-button'' = None then []
          else [(''sidebar-toggle-button'', ''click'',
                    SidebarClick (Some ''main-sidebar'') (Some ''main-container'')
                      (Some ''sidebar-toggle-button''))])"
proof (cases "elements st ''main-sidebar'' = None \<or> elements st ''main-container'' = None
     \<or> elements st ''sidebar-toggle-button'' = None")
  case True
  then show ?thesis using sidebar_init_missing [OF True] by auto
next
  case False
  then obtain s c b where el: "elements st ''main-sidebar'' = Some s"
    "elements st ''main-container'' = Some c" "elements st ''sidebar-toggle-button'' = Some b"
    by auto
  have d: "''main-sidebar'' \<in> dom (elements st)" "''main-container'' \<in> dom (elements st)"
    "''sidebar-toggle-button'' \<in> dom (elements st)"
    using el by auto
  show ?thesis
  proof (cases "localStorage st ''sidebarState'' = Some ''collapsed''")
    case True
    show ?thesis using d el True
      by (simp add: sidebar_init_collapsed [OF el True] insert_absorb map_upd_triv)
  next
    case False
    show ?thesis using d el by (simp add: sidebar_init_other [OF el False])
  qed
qed

lemma load_returns:
  "\<exists>st'. load st = Inr st' \<and> dom (elements st') = dom (elements st)
     \<and> localStorage st' = localStorage st
     \<and> listeners st' = listeners st @
         (if elements st ''theme-toggle-checkbox'' = None then []
          else [(''theme-toggle-checkbox'', ''change'', ToggleTheme)]) @
         (if elements st ''main-sidebar'' = None \<or> elements st ''main-container'' = None
             \<or> elements st ''sidebar-toggle-button'' = None then []
          else [(''sidebar-toggle-button'', ''click'',
                    SidebarClick (Some ''main-sidebar'') (Some ''main-container'')
                      (Some ''sidebar-toggle-button''))])"
proof -
  obtain st1 where st1: "theme_init st = Inr st1" using theme_init_returns by blast
  note f = theme_init_frame [OF st1] theme_init_dom [OF st1]
  obtain st2 where st2: "sidebar_init st1 = Inr st2" "dom (elements st2) = dom (elements st1)"
     "localStorage st2 = localStorage st1"
     "listeners st2 = listeners st1 @
         (if elements st1 ''main-sidebar'' = None \<or> elements st1 ''main-container'' = None
             \<or> elements st1 ''sidebar-toggle-button'' = None then []
          else [(''sidebar-toggle-button'', ''click'',
                    SidebarClick (Some ''main-sidebar'') (Some ''main-container'')
                      (Some ''sidebar-toggle-button''))])"
    using sidebar_init_returns [of st1] by blast
  have e: "elements st1 ''main-sidebar'' = elements st ''main-sidebar''"
    "elements st1 ''main-container'' = elements st ''main-container''"
    "elements st1 ''sidebar-toggle-button'' = elements st ''sidebar-toggle-button''"
    by (simp_all add: f(4))
  show ?thesis
    using st1 st2 f(1,5,6) e by (simp add: load_def bind_err_def)
qed

lemma dom_eq_None: "dom a = dom b \<Longrightarrow> (a x = None) = (b x = None)"
  by (auto simp add: domIff dest: equalityD1 equalityD2)

lemma load_theme_part:
  "\<exists>st1 st2. theme_init st = Inr st1 \<and> load st = Inr st2
     \<and> documentElement st2 = documentElement st1
     \<and> elements st2 ''theme-toggle-checkbox'' = elements st1 ''theme-toggle-checkbox''
     \<and> localStorage st2 = localStorage st"
proof -
  obtain st1 where st1: "theme_init st = Inr st1" using theme_init_returns by blast
  obtain st2 where st2: "sidebar_init st1 = Inr st2" "localStorage st2 = localStorage st1"
    "documentElement st2 = documentElement st1"
    "elements st2 ''theme-toggle-checkbox'' = elements st1 ''theme-toggle-checkbox''"
    using sidebar_init_returns [of st1] by blast
  from st1 st2 theme_init_frame(1) [OF st1] show ?thesis by (simp add: load_def bind_err_def)
qed

lemma load_sidebar_part:
  "\<exists>st1 st2. theme_init st = Inr st1 \<and> sidebar_init st1 = Inr st2 \<and> load st = Inr st2
     \<and> localStorage st1 = localStorage st
     \<and> elements st1 ''main-sidebar'' = elements st ''main-sidebar''
     \<and> elements st1 ''main-container'' = elements st ''main-container''
     \<and> elements st1 ''sidebar-toggle-button'' = elements st ''sidebar-toggle-button''"
proof -
  obtain st1 where st1: "theme_init st = Inr st1" using theme_init_returns by blast
  obtain st2 where st2: "sidebar_init st1 = Inr st2" using sidebar_init_returns [of st1] by blast
  from st1 st2 theme_init_frame(1,4) [OF st1] show ?thesis by (simp add: load_def bind_err_def)
qed

lemma sidebar_init_log:
  "\<exists>st'. sidebar_init st = Inr st' \<and> localStorage st' = localStorage st
     \<and> storage_log st' = storage_log st @
         (if elements st ''main-sidebar'' = None \<or> elements st ''main-container'' = None
             \<or> elements st ''sidebar-toggle-button'' = None then []
          else if localStorage st ''sidebarState'' = Some ''collapsed''
          then [GetItem ''sidebarState'', SetItem ''sidebarState'' ''collapsed'']
          else [GetItem ''sidebarState''])"
proof (cases "elements st ''main-sidebar'' = None \<or> elements st ''main-container'' = None
     \<or> elements st ''sidebar-toggle-button'' = None")
  case True
  then show ?thesis using sidebar_init_missing [OF True] by auto
next
  case False
  then obtain s c b where el: "elements st ''main-sidebar'' = Some s"
    "elements st ''main-container'' = Some c" "elements st ''sidebar-toggle-button'' = Some b"
    by auto
  show ?thesis
  proof (cases "localStorage st ''sidebarState'' = Some ''collapsed''")
    case True
    show ?thesis using el True
      by (simp add: sidebar_init_collapsed [OF el True] map_upd_triv)
  next
    case False
    show ?thesis using el False by (simp add: sidebar_init_other [OF el False])
  qed
qed

lemma bind_err_Inr: "bind_err r f = Inr y \<Longrightarrow> \<exists>x. r = Inr x \<and> f x = Inr y"
  by (cases r) (simp_all add: bind_err_def)

lemma update_element_storage:
  "update_element h f st = Inr st' \<Longrightarrow> localStorage st' = localStorage st"
  by (auto simp add: update_element_def split: option.splits)

lemma collapseSidebar_storage:
  assumes "collapseSidebar x y z st = Inr st'"
  shows "localStorage st' = (localStorage st)(''sidebarState'' \<mapsto> ''collapsed'')"
proof -
  from assms obtain st1 st2 st3 st4 where
    "update_element x (\<lambda>el. el\<lparr>classList := token_add ''is-collapsed'' (classList el)\<rparr>) st
       = Inr st1"
    "update_element y (\<lambda>el. el\<lparr>classList := token_add ''is-collapsed'' (classList el)\<rparr>) st1
       = Inr st2"
    "update_element z (\<lambda>el. el\<lparr>attributes := (attributes el)(''aria-expanded'' \<mapsto> ''false'')\<rparr>)
       st2 = Inr st3"
    "update_element z
       (\<lambda>el. el\<lparr>attributes := (attributes el)(''aria-label'' \<mapsto> ''Expand sidebar'')\<rparr>) st3
       = Inr st4"
    "st' = setItem ''sidebarState'' ''collapsed'' st4"
    unfolding collapseSidebar_def classList_add_def setAttribute_def
    by (blast dest!: bind_err_Inr)
  then show ?thesis by (simp add: setItem_def update_element_storage)
qed

lemma expandSidebar_storage:
  assumes "expandSidebar x y z st = Inr st'"
  shows "localStorage st' = (localStorage st)(''sidebarState'' \<mapsto> ''expanded'')"
proof -
  from assms obtain st1 st2 st3 st4 where
    "update_element x (\<lambda>el. el\<lparr>classList := token_remove ''is-collapsed'' (classList el)\<rparr>) st
       = Inr st1"
    "update_element y (\<lambda>el. el\<lparr>classList := token_remove ''is-collapsed'' (classList el)\<rparr>)
       st1 = Inr st2"
    "update_element z (\<lambda>el. el\<lparr>attributes := (attributes el)(''aria-expanded'' \<mapsto> ''true'')\<rparr>)
       st2 = Inr st3"
    "update_element z
       (\<lambda>el. el\<lparr>attributes := (attributes el)(''aria-label'' \<mapsto> ''Collapse sidebar'')\<rparr>) st3
       = Inr st4"
    "st' = setItem ''sidebarState'' ''expanded'' st4"
    unfolding expandSidebar_def classList_remove_def setAttribute_def
    by (blast dest!: bind_err_Inr)
  then show ?thesis by (simp add: setItem_def update_element_storage)
qed

lemma sidebar_click_storage:
  "sidebar_click x y z st = Inr st' \<Longrightarrow> localStorage st' ''theme'' = localStorage st ''theme''"
  by (auto simp add: sidebar_click_def dest!: bind_err_Inr
      collapseSidebar_storage expandSidebar_storage split: if_splits)

lemma load_log:
  "\<exists>st2. load st = Inr st2 \<and> localStorage st2 = localStorage st
     \<and> storage_log st2 = storage_log st @ GetItem ''theme'' #
         (if elements st ''main-sidebar'' = None \<or> elements st ''main-container'' = None
             \<or> elements st ''sidebar-toggle-button'' = None then []
          else if localStorage st ''sidebarState'' = Some ''collapsed''
          then [GetItem ''sidebarState'', SetItem ''sidebarState'' ''collapsed'']
          else [GetItem ''sidebarState''])"
proof -
  from load_sidebar_part [of st] obtain st1 st2 where l: "theme_init st = Inr st1"
    "sidebar_init st1 = Inr st2" "load st = Inr st2" "localStorage st1 = localStorage st"
    "elements st1 ''main-sidebar'' = elements st ''main-sidebar''"
    "elements st1 ''main-container'' = elements st ''main-container''"
    "elements st1 ''sidebar-toggle-button'' = elements st ''sidebar-toggle-button''"
    by blast
  from sidebar_init_log [of st1] l(2,4-7) theme_init_frame(2) [OF l(1)] l(3)
  show ?thesis by auto
qed

section \<open>The claims\<close>

text \<open>
  C1. Take a page on which the script has not yet registered a listener, load it, and let
  the user trigger any sequence of events. Nothing raises. If the theme checkbox is
  present, a further change event on it leaves a \<^verbatim>\<open>data-theme\<close> attribute on the root
  and the same value under the storage key \<^verbatim>\<open>theme\<close>. If the sidebar, the container
  and the toggle button are present, a further click on the button leaves
  \<^verbatim>\<open>sidebarState\<close> at \<^verbatim>\<open>collapsed\<close> exactly when the sidebar carries the class
  \<^verbatim>\<open>is-collapsed\<close> and at \<^verbatim>\<open>expanded\<close> otherwise, and the container carries the
  class exactly when the sidebar does.
\<close>

theorem persisted_matches_rendered:
  assumes fresh: "listeners p = []"
  shows "\<exists>p1 p2. load p = Inr p1 \<and> user_events evs p1 = Inr p2 \<and>
     (elements p ''theme-toggle-checkbox'' \<noteq> None \<longrightarrow>
        (\<exists>p3 v. dispatchEvent ''theme-toggle-checkbox'' ''change'' p2 = Inr p3
           \<and> documentElement p3 ''data-theme'' = Some v
           \<and> localStorage p3 ''theme'' = Some v)) \<and>
     (elements p ''main-sidebar'' \<noteq> None \<and> elements p ''main-container'' \<noteq> None
        \<and> elements p ''sidebar-toggle-button'' \<noteq> None \<longrightarrow>
        (\<exists>p3 s c. dispatchEvent ''sidebar-toggle-button'' ''click'' p2 = Inr p3
           \<and> elements p3 ''main-sidebar'' = Some s \<and> elements p3 ''main-container'' = Some c
           \<and> localStorage p3 ''sidebarState'' =
               Some (if ''is-collapsed'' \<in> set (classList s) then ''collapsed'' else ''expanded'')
           \<and> (''is-collapsed'' \<in> set (classList c)) = (''is-collapsed'' \<in> set (classList s))))"
proof -
  let ?L = "(if elements p ''theme-toggle-checkbox'' = None then []
          else [(''theme-toggle-checkbox'', ''change'', ToggleTheme)]) @
         (if elements p ''main-sidebar'' = None \<or> elements p ''main-container'' = None
             \<or> elements p ''sidebar-toggle-button'' = None then []
          else [(''sidebar-toggle-button'', ''click'',
                    SidebarClick (Some ''main-sidebar'') (Some ''main-container'')
                      (Some ''sidebar-toggle-button''))])"
  from load_returns [of p] fresh obtain p1 where p1: "load p = Inr p1"
    "dom (elements p1) = dom (elements p)" "listeners p1 = ?L"
    by auto
  have ok: "closures_ok p1"
    by (simp add: closures_ok_def closure_ok_def p1(3) dom_eq_None [OF p1(2)])
  from user_events_ok [OF ok, of evs] obtain p2 where p2: "user_events evs p1 = Inr p2"
    "listeners p2 = listeners p1" "dom (elements p2) = dom (elements p1)" by blast
  have L: "listeners p2 = ?L" using p2(2) p1(3) by simp
  have D: "\<And>x. (elements p2 x = None) = (elements p x = None)"
    using dom_eq_None [OF p2(3)] dom_eq_None [OF p1(2)] by simp
  have theme: "\<exists>p3 v. dispatchEvent ''theme-toggle-checkbox'' ''change'' p2 = Inr p3
           \<and> documentElement p3 ''data-theme'' = Some v
           \<and> localStorage p3 ''theme'' = Some v"
    if "elements p ''theme-toggle-checkbox'' \<noteq> None"
    using that
    by (auto simp add: dispatchEvent_def handlers_for_def L bind_err_def toggleTheme_def
        setItem_def root_setAttribute_def)
  have side: "\<exists>p3 s c. dispatchEvent ''sidebar-toggle-button'' ''click'' p2 = Inr p3
           \<and> elements p3 ''main-sidebar'' = Some s \<and> elements p3 ''main-container'' = Some c
           \<and> localStorage p3 ''sidebarState'' =
               Some (if ''is-collapsed'' \<in> set (classList s) then ''collapsed'' else ''expanded'')
           \<and> (''is-collapsed'' \<in> set (classList c)) = (''is-collapsed'' \<in> set (classList s))"
    if pres: "elements p ''main-sidebar'' \<noteq> None \<and> elements p ''main-container'' \<noteq> None
        \<and> elements p ''sidebar-toggle-button'' \<noteq> None"
  proof -
    from pres D obtain s c b where el: "elements p2 ''main-sidebar'' = Some s"
      "elements p2 ''main-container'' = Some c" "elements p2 ''sidebar-toggle-button'' = Some b"
      by (metis not_Some_eq)
    have h: "handlers_for ''sidebar-toggle-button'' ''click'' p2 =
       [SidebarClick (Some ''main-sidebar'') (Some ''main-container'')
                      (Some ''sidebar-toggle-button'')]"
      using pres by (simp add: handlers_for_def L)
    show ?thesis
      by (simp add: dispatchEvent_def h bind_err_def sidebar_click_result [OF el]
          expandSidebar_result [OF el] collapseSidebar_result [OF el]
          token_add_def token_remove_def)
  qed
  from p1(1) p2(1) theme side show ?thesis by blast
qed

text \<open>
  The example page with empty storage and a light system scheme, after a change on the
  checkbox and a click on the button.
\<close>

theorem persisted_matches_rendered_witness:
  "listeners (example_page Map.empty False) = [] \<and>
   (\<exists>p1 p2. load (example_page Map.empty False) = Inr p1
      \<and> user_events [(''theme-toggle-checkbox'', ''change''),
                      (''sidebar-toggle-button'', ''click'')] p1 = Inr p2
      \<and> (\<exists>p3 v. dispatchEvent ''theme-toggle-checkbox'' ''change'' p2 = Inr p3
           \<and> documentElement p3 ''data-theme'' = Some v
           \<and> localStorage p3 ''theme'' = Some v)
      \<and> (\<exists>p3 s c. dispatchEvent ''sidebar-toggle-button'' ''click'' p2 = Inr p3
           \<and> elements p3 ''main-sidebar'' = Some s \<and> elements p3 ''main-container'' = Some c
           \<and> localStorage p3 ''sidebarState'' =
               Some (if ''is-collapsed'' \<in> set (classList s) then ''collapsed'' else ''expanded'')
           \<and> (''is-collapsed'' \<in> set (classList c)) = (''is-collapsed'' \<in> set (classList s))))"
  using persisted_matches_rendered [of "example_page Map.empty False"
      "[(''theme-toggle-checkbox'', ''change''), (''sidebar-toggle-button'', ''click'')]"]
  by (simp add: example_page_def example_elements_def)

text \<open>
  C2. \<open>toggleTheme\<close> reads \<^verbatim>\<open>data-theme\<close> from the root, taking an unset or empty
  attribute as light, writes \<^verbatim>\<open>light\<close> if it read \<^verbatim>\<open>dark\<close> and \<^verbatim>\<open>dark\<close>
  otherwise, and stores the value it wrote under \<^verbatim>\<open>theme\<close> with one
  \<^verbatim>\<open>setItem\<close>. From light the page is dark afterwards and from dark it is light, and
  in both cases the stored preference is the rendered theme.
\<close>

theorem toggleTheme_flips:
  "documentElement (toggleTheme st) ''data-theme'' =
     Some (if currentTheme st = ''dark'' then ''light'' else ''dark'')
   \<and> currentTheme st =
       (case documentElement st ''data-theme'' of
          None \<Rightarrow> ''light'' | Some v \<Rightarrow> if v = [] then ''light'' else v)
   \<and> localStorage (toggleTheme st) ''theme'' = documentElement (toggleTheme st) ''data-theme''
   \<and> storage_log (toggleTheme st) =
       storage_log st @ [SetItem ''theme'' (if currentTheme st = ''dark'' then ''light'' else ''dark'')]
   \<and> (documentElement st ''data-theme'' = Some ''light'' \<longrightarrow>
        documentElement (toggleTheme st) ''data-theme'' = Some ''dark''
        \<and> localStorage (toggleTheme st) ''theme'' = Some ''dark'')
   \<and> (documentElement st ''data-theme'' = Some ''dark'' \<longrightarrow>
        documentElement (toggleTheme st) ''data-theme'' = Some ''light''
        \<and> localStorage (toggleTheme st) ''theme'' = Some ''light'')"
  by (simp add: toggleTheme_def newTheme_def currentTheme_def truthy_def dom_defs
      split: option.splits)

text \<open>
  Two toggles on the example page: unset to dark, dark to light.
\<close>

theorem toggleTheme_flips_witness:
  "documentElement (toggleTheme (example_page Map.empty False)) ''data-theme'' = Some ''dark''
   \<and> localStorage (toggleTheme (example_page Map.empty False)) ''theme'' = Some ''dark''
   \<and> documentElement (toggleTheme (toggleTheme (example_page Map.empty False))) ''data-theme''
        = Some ''light''
   \<and> localStorage (toggleTheme (toggleTheme (example_page Map.empty False))) ''theme''
        = Some ''light''"
  using toggleTheme_flips [of "example_page Map.empty False"]
    toggleTheme_flips [of "toggleTheme (example_page Map.empty False)"]
  by (simp add: example_page_def)

text \<open>
  C3 as stated fails where the resolution falls through to the light default. On the
  example page with empty storage and a light system scheme the theme controller reads
  storage, registers its listener and writes nothing to the root: \<^verbatim>\<open>data-theme\<close> is
  still unset after initialization, not \<^verbatim>\<open>light\<close>.
\<close>

theorem theme_init_light_default_counterexample:
  "theme_init (example_page Map.empty False) =
     Inr ((example_page Map.empty False)
            \<lparr>storage_log := [GetItem ''theme''],
             listeners := [(''theme-toggle-checkbox'', ''change'', ToggleTheme)]\<rparr>)
   \<and> documentElement ((example_page Map.empty False)
            \<lparr>storage_log := [GetItem ''theme''],
             listeners := [(''theme-toggle-checkbox'', ''change'', ToggleTheme)]\<rparr>)
         ''data-theme'' \<noteq> Some ''light''"
  by (simp add: theme_defs dom_defs prefersDark_def example_page_def example_elements_def)

text \<open>
  C3, amended. Theme initialization never raises. A non-empty stored preference is set as
  \<^verbatim>\<open>data-theme\<close> whatever the system scheme is; in particular a stored
  \<^verbatim>\<open>light\<close> gives a light page after load. Without one, a dark system scheme sets
  \<^verbatim>\<open>dark\<close>. When neither applies the root's attributes are left as they were. The
  checkbox, when present, ends up checked if it was checked before or the resolved theme is
  exactly \<^verbatim>\<open>dark\<close>; initialization never unchecks it, so a checkbox that was
  unchecked before load is checked afterwards exactly when the resolved theme is dark.
\<close>

theorem theme_init_precedence:
  "\<exists>st'. theme_init st = Inr st'
     \<and> (\<forall>v. localStorage st ''theme'' = Some v \<and> v \<noteq> [] \<longrightarrow>
           documentElement st' ''data-theme'' = Some v)
     \<and> (localStorage st ''theme'' = Some ''light'' \<longrightarrow>
           documentElement st' ''data-theme'' = Some ''light''
           \<and> (\<exists>st2. load st = Inr st2 \<and> documentElement st2 ''data-theme'' = Some ''light''))
     \<and> (\<not> truthy (localStorage st ''theme'') \<and> prefersDark st \<longrightarrow>
           documentElement st' ''data-theme'' = Some ''dark'')
     \<and> (\<not> truthy (localStorage st ''theme'') \<and> \<not> prefersDark st \<longrightarrow>
           documentElement st' = documentElement st)
     \<and> (\<forall>c. elements st ''theme-toggle-checkbox'' = Some c \<longrightarrow>
           elements st' ''theme-toggle-checkbox'' =
             Some (c\<lparr>checked := checked c \<or>
                (if truthy (localStorage st ''theme'')
                 then localStorage st ''theme'' = Some ''dark'' else prefersDark st)\<rparr>))"
proof -
  obtain st' where st': "theme_init st = Inr st'" using theme_init_returns by blast
  obtain st2 where st2: "sidebar_init st' = Inr st2" "documentElement st2 = documentElement st'"
    using sidebar_init_returns [of st'] by blast
  have l: "load st = Inr st2" using st' st2 by (simp add: load_def bind_err_def)
  show ?thesis
    using st' l st2(2) theme_init_attribute [OF st'] theme_init_checkbox [OF st']
    by (auto simp add: truthy_def)
qed

text \<open>
  A stored \<^verbatim>\<open>light\<close> under a dark system scheme, and empty storage under a dark
  system scheme.
\<close>

theorem theme_init_precedence_witness:
  "localStorage (example_page [''theme'' \<mapsto> ''light''] True) ''theme'' = Some ''light''
   \<and> prefersDark (example_page [''theme'' \<mapsto> ''light''] True)
   \<and> (\<exists>st'. theme_init (example_page [''theme'' \<mapsto> ''light''] True) = Inr st'
        \<and> documentElement st' ''data-theme'' = Some ''light''
        \<and> elements st' ''theme-toggle-checkbox'' =
            Some \<lparr>classList = [], attributes = Map.empty, checked = False\<rparr>)
   \<and> \<not> truthy (localStorage (example_page Map.empty True) ''theme'')
   \<and> (\<exists>st'. theme_init (example_page Map.empty True) = Inr st'
        \<and> documentElement st' ''data-theme'' = Some ''dark''
        \<and> elements st' ''theme-toggle-checkbox'' =
            Some \<lparr>classList = [], attributes = Map.empty, checked = True\<rparr>)"
proof -
  have h: "localStorage (example_page [''theme'' \<mapsto> ''light''] True) ''theme'' = Some ''light''"
    "prefersDark (example_page [''theme'' \<mapsto> ''light''] True)"
    "truthy (localStorage (example_page [''theme'' \<mapsto> ''light''] True) ''theme'')"
    "\<not> truthy (localStorage (example_page Map.empty True) ''theme'')"
    "prefersDark (example_page Map.empty True)"
    by (simp_all add: example_page_def prefersDark_def truthy_def)
  have e: "elements (example_page [''theme'' \<mapsto> ''light''] True) ''theme-toggle-checkbox'' =
      Some \<lparr>classList = [], attributes = Map.empty, checked = False\<rparr>"
    "elements (example_page Map.empty True) ''theme-toggle-checkbox'' =
      Some \<lparr>classList = [], attributes = Map.empty, checked = False\<rparr>"
    by (simp_all add: example_page_def example_elements_def)
  have a: "\<exists>st'. theme_init (example_page [''theme'' \<mapsto> ''light''] True) = Inr st'
        \<and> documentElement st' ''data-theme'' = Some ''light''
        \<and> elements st' ''theme-toggle-checkbox'' =
            Some \<lparr>classList = [], attributes = Map.empty, checked = False\<rparr>"
    using theme_init_precedence [of "example_page [''theme'' \<mapsto> ''light''] True"] h(1,3) e(1)
    by auto
  have b: "\<exists>st'. theme_init (example_page Map.empty True) = Inr st'
        \<and> documentElement st' ''data-theme'' = Some ''dark''
        \<and> elements st' ''theme-toggle-checkbox'' =
            Some \<lparr>classList = [], attributes = Map.empty, checked = True\<rparr>"
    using theme_init_precedence [of "example_page Map.empty True"] h(4,5) e(2)
    by auto
  from h a b show ?thesis by blast
qed

text \<open>
  C4. With the three elements present, \<open>collapseSidebar\<close> returns a page on which the
  sidebar and the container carry \<^verbatim>\<open>is-collapsed\<close>, the button has
  \<^verbatim>\<open>aria-expanded\<close> \<^verbatim>\<open>false\<close> and \<^verbatim>\<open>aria-label\<close> \<^verbatim>\<open>Expand sidebar\<close>, and
  \<^verbatim>\<open>sidebarState\<close> is \<^verbatim>\<open>collapsed\<close>; \<open>expandSidebar\<close> returns a page on which
  neither carries the class, the button has \<^verbatim>\<open>aria-expanded\<close> \<^verbatim>\<open>true\<close> and
  \<^verbatim>\<open>aria-label\<close> \<^verbatim>\<open>Collapse sidebar\<close>, and \<^verbatim>\<open>sidebarState\<close> is
  \<^verbatim>\<open>expanded\<close>. Both hold from every state, so in particular from the opposite one.
\<close>

theorem collapse_expand_effect:
  assumes "elements st ''main-sidebar'' = Some s" "elements st ''main-container'' = Some c"
    "elements st ''sidebar-toggle-button'' = Some b"
  shows "(\<exists>st' s' c' b'.
            collapseSidebar (Some ''main-sidebar'') (Some ''main-container'')
              (Some ''sidebar-toggle-button'') st = Inr st'
          \<and> elements st' ''main-sidebar'' = Some s'
          \<and> elements st' ''main-container'' = Some c'
          \<and> elements st' ''sidebar-toggle-button'' = Some b'
          \<and> ''is-collapsed'' \<in> set (classList s') \<and> ''is-collapsed'' \<in> set (classList c')
          \<and> attributes b' ''aria-expanded'' = Some ''false''
          \<and> attributes b' ''aria-label'' = Some ''Expand sidebar''
          \<and> localStorage st' ''sidebarState'' = Some ''collapsed'')
       \<and> (\<exists>st' s' c' b'.
            expandSidebar (Some ''main-sidebar'') (Some ''main-container'')
              (Some ''sidebar-toggle-button'') st = Inr st'
          \<and> elements st' ''main-sidebar'' = Some s'
          \<and> elements st' ''main-container'' = Some c'
          \<and> elements st' ''sidebar-toggle-button'' = Some b'
          \<and> ''is-collapsed'' \<notin> set (classList s') \<and> ''is-collapsed'' \<notin> set (classList c')
          \<and> attributes b' ''aria-expanded'' = Some ''true''
          \<and> attributes b' ''aria-label'' = Some ''Collapse sidebar''
          \<and> localStorage st' ''sidebarState'' = Some ''expanded'')"
  by (simp add: collapseSidebar_result [OF assms] expandSidebar_result [OF assms]
      token_add_def token_remove_def)

text \<open>
  Collapsing the sidebar of the example page.
\<close>

theorem collapse_expand_effect_witness:
  "elements (example_page Map.empty False) ''main-sidebar'' =
     Some \<lparr>classList = [''sidebar''], attributes = Map.empty, checked = False\<rparr>
   \<and> (\<exists>st' s' c' b'.
            collapseSidebar (Some ''main-sidebar'') (Some ''main-container'')
              (Some ''sidebar-toggle-button'') (example_page Map.empty False) = Inr st'
          \<and> elements st' ''main-sidebar'' = Some s'
          \<and> elements st' ''main-container'' = Some c'
          \<and> elements st' ''sidebar-toggle-button'' = Some b'
          \<and> ''is-collapsed'' \<in> set (classList s') \<and> ''is-collapsed'' \<in> set (classList c')
          \<and> attributes b' ''aria-expanded'' = Some ''false''
          \<and> attributes b' ''aria-label'' = Some ''Expand sidebar''
          \<and> localStorage st' ''sidebarState'' = Some ''collapsed'')"
  using collapse_expand_effect [of "example_page Map.empty False"
      "\<lparr>classList = [''sidebar''], attributes = Map.empty, checked = False\<rparr>"
      "\<lparr>classList = [''container''], attributes = Map.empty, checked = False\<rparr>"
      "\<lparr>classList = [],
          attributes = [''aria-expanded'' \<mapsto> ''true'', ''aria-label'' \<mapsto> ''Collapse sidebar''],
          checked = False\<rparr>"]
  by (simp add: example_page_def example_elements_def)

text \<open>
  C5. If the sidebar, the container or the toggle button is missing, the sidebar module
  returns normally and leaves the page exactly as it was: the same listeners, the same
  elements, the same storage and the same log of storage calls.
\<close>

theorem sidebar_inert:
  "elements st ''main-sidebar'' = None \<or> elements st ''main-container'' = None
     \<or> elements st ''sidebar-toggle-button'' = None \<Longrightarrow> sidebar_init st = Inr st"
  by (auto simp add: sidebar_init_def getElementById_def)

text \<open>
  The example page without its toggle button, with \<^verbatim>\<open>collapsed\<close> stored.
\<close>

theorem sidebar_inert_witness:
  "elements ((example_page [''sidebarState'' \<mapsto> ''collapsed''] False)
      \<lparr>elements := example_elements(''sidebar-toggle-button'' := None)\<rparr>)
     ''sidebar-toggle-button'' = None
   \<and> sidebar_init ((example_page [''sidebarState'' \<mapsto> ''collapsed''] False)
      \<lparr>elements := example_elements(''sidebar-toggle-button'' := None)\<rparr>) =
     Inr ((example_page [''sidebarState'' \<mapsto> ''collapsed''] False)
      \<lparr>elements := example_elements(''sidebar-toggle-button'' := None)\<rparr>)"
  using sidebar_inert [of "(example_page [''sidebarState'' \<mapsto> ''collapsed''] False)
      \<lparr>elements := example_elements(''sidebar-toggle-button'' := None)\<rparr>"]
  by simp

text \<open>
  C6. With the three elements present, loading a page whose stored
  \<^verbatim>\<open>sidebarState\<close> is \<^verbatim>\<open>collapsed\<close> leaves the sidebar and the container with the
  class \<^verbatim>\<open>is-collapsed\<close> and the button with \<^verbatim>\<open>aria-expanded\<close> \<^verbatim>\<open>false\<close>
  and \<^verbatim>\<open>aria-label\<close> \<^verbatim>\<open>Expand sidebar\<close>. For any other stored value, or none, the
  three elements are after load what they were before.
\<close>

theorem sidebar_restored_on_load:
  assumes "elements st ''main-sidebar'' = Some s" "elements st ''main-container'' = Some c"
    "elements st ''sidebar-toggle-button'' = Some b"
  shows "\<exists>st'. load st = Inr st'
     \<and> (localStorage st ''sidebarState'' = Some ''collapsed'' \<longrightarrow>
          (\<exists>s' c' b'. elements st' ''main-sidebar'' = Some s'
             \<and> elements st' ''main-container'' = Some c'
             \<and> elements st' ''sidebar-toggle-button'' = Some b'
             \<and> ''is-collapsed'' \<in> set (classList s') \<and> ''is-collapsed'' \<in> set (classList c')
             \<and> attributes b' ''aria-expanded'' = Some ''false''
             \<and> attributes b' ''aria-label'' = Some ''Expand sidebar''))
     \<and> (localStorage st ''sidebarState'' \<noteq> Some ''collapsed'' \<longrightarrow>
          elements st' ''main-sidebar'' = Some s \<and> elements st' ''main-container'' = Some c
          \<and> elements st' ''sidebar-toggle-button'' = Some b)"
proof -
  from load_sidebar_part [of st] assms obtain st1 st2 where l: "sidebar_init st1 = Inr st2"
    "load st = Inr st2" "localStorage st1 = localStorage st"
    and el: "elements st1 ''main-sidebar'' = Some s" "elements st1 ''main-container'' = Some c"
      "elements st1 ''sidebar-toggle-button'' = Some b"
    by auto
  show ?thesis
  proof (cases "localStorage st ''sidebarState'' = Some ''collapsed''")
    case True
    with l(3) have t: "localStorage st1 ''sidebarState'' = Some ''collapsed''" by simp
    from l(1) have "st2 = projr (sidebar_init st1)" by simp
    then show ?thesis using l(2) True
      by (simp add: sidebar_init_collapsed [OF el t] token_add_def)
  next
    case False
    with l(3) have t: "localStorage st1 ''sidebarState'' \<noteq> Some ''collapsed''" by simp
    from l(1) have "st2 = projr (sidebar_init st1)" by simp
    then show ?thesis using l(2) False el
      by (simp add: sidebar_init_other [OF el t])
  qed
qed

text \<open>
  The example page loaded with \<^verbatim>\<open>collapsed\<close> stored, and with \<^verbatim>\<open>expanded\<close>
  stored.
\<close>

theorem sidebar_restored_on_load_witness:
  "elements (example_page [''sidebarState'' \<mapsto> ''collapsed''] False) ''main-sidebar'' =
     Some \<lparr>classList = [''sidebar''], attributes = Map.empty, checked = False\<rparr>
   \<and> localStorage (example_page [''sidebarState'' \<mapsto> ''collapsed''] False) ''sidebarState''
       = Some ''collapsed''
   \<and> (\<exists>st' s' c' b'. load (example_page [''sidebarState'' \<mapsto> ''collapsed''] False) = Inr st'
         \<and> elements st' ''main-sidebar'' = Some s'
         \<and> elements st' ''main-container'' = Some c'
         \<and> elements st' ''sidebar-toggle-button'' = Some b'
         \<and> ''is-collapsed'' \<in> set (classList s') \<and> ''is-collapsed'' \<in> set (classList c')
         \<and> attributes b' ''aria-expanded'' = Some ''false''
         \<and> attributes b' ''aria-label'' = Some ''Expand sidebar'')
   \<and> localStorage (example_page [''sidebarState'' \<mapsto> ''expanded''] False) ''sidebarState''
       \<noteq> Some ''collapsed''
   \<and> (\<exists>st'. load (example_page [''sidebarState'' \<mapsto> ''expanded''] False) = Inr st'
         \<and> elements st' ''main-sidebar'' =
             Some \<lparr>classList = [''sidebar''], attributes = Map.empty, checked = False\<rparr>
         \<and> elements st' ''main-container'' =
             Some \<lparr>classList = [''container''], attributes = Map.empty, checked = False\<rparr>)"
proof -
  have a: "elements (example_page [''sidebarState'' \<mapsto> ''collapsed''] False) ''main-sidebar'' =
     Some \<lparr>classList = [''sidebar''], attributes = Map.empty, checked = False\<rparr>
   \<and> localStorage (example_page [''sidebarState'' \<mapsto> ''collapsed''] False) ''sidebarState''
       = Some ''collapsed''
   \<and> (\<exists>st' s' c' b'. load (example_page [''sidebarState'' \<mapsto> ''collapsed''] False) = Inr st'
         \<and> elements st' ''main-sidebar'' = Some s'
         \<and> elements st' ''main-container'' = Some c'
         \<and> elements st' ''sidebar-toggle-button'' = Some b'
         \<and> ''is-collapsed'' \<in> set (classList s') \<and> ''is-collapsed'' \<in> set (classList c')
         \<and> attributes b' ''aria-expanded'' = Some ''false''
         \<and> attributes b' ''aria-label'' = Some ''Expand sidebar'')"
    using sidebar_restored_on_load [of "example_page [''sidebarState'' \<mapsto> ''collapsed''] False"
      "\<lparr>classList = [''sidebar''], attributes = Map.empty, checked = False\<rparr>"
      "\<lparr>classList = [''container''], attributes = Map.empty, checked = False\<rparr>"
      "\<lparr>classList = [],
          attributes = [''aria-expanded'' \<mapsto> ''true'', ''aria-label'' \<mapsto> ''Collapse sidebar''],
          checked = False\<rparr>"]
    by (simp add: example_page_def example_elements_def)
  have b: "localStorage (example_page [''sidebarState'' \<mapsto> ''expanded''] False) ''sidebarState''
       \<noteq> Some ''collapsed''
   \<and> (\<exists>st'. load (example_page [''sidebarState'' \<mapsto> ''expanded''] False) = Inr st'
         \<and> elements st' ''main-sidebar'' =
             Some \<lparr>classList = [''sidebar''], attributes = Map.empty, checked = False\<rparr>
         \<and> elements st' ''main-container'' =
             Some \<lparr>classList = [''container''], attributes = Map.empty, checked = False\<rparr>)"
    using sidebar_restored_on_load [of "example_page [''sidebarState'' \<mapsto> ''expanded''] False"
      "\<lparr>classList = [''sidebar''], attributes = Map.empty, checked = False\<rparr>"
      "\<lparr>classList = [''container''], attributes = Map.empty, checked = False\<rparr>"
      "\<lparr>classList = [],
          attributes = [''aria-expanded'' \<mapsto> ''true'', ''aria-label'' \<mapsto> ''Collapse sidebar''],
          checked = False\<rparr>"]
    by (auto simp add: example_page_def example_elements_def)
  from a b show ?thesis by blast
qed

text \<open>
  C7. With no stored theme and a dark system scheme, the page after load has
  \<^verbatim>\<open>data-theme\<close> \<^verbatim>\<open>dark\<close> and the checkbox, when present, is checked.
\<close>

theorem system_dark_applied:
  assumes "localStorage st ''theme'' = None" and "prefersDark st"
  shows "\<exists>st'. load st = Inr st' \<and> documentElement st' ''data-theme'' = Some ''dark''
     \<and> (\<forall>c. elements st ''theme-toggle-checkbox'' = Some c \<longrightarrow>
           (\<exists>c'. elements st' ''theme-toggle-checkbox'' = Some c' \<and> checked c' = True))"
proof -
  from load_theme_part [of st] obtain st1 st2 where l: "theme_init st = Inr st1"
    "load st = Inr st2" "documentElement st2 = documentElement st1"
    "elements st2 ''theme-toggle-checkbox'' = elements st1 ''theme-toggle-checkbox''"
    by blast
  show ?thesis
    using assms l theme_init_attribute [OF l(1)] theme_init_checkbox [OF l(1)]
    by (auto simp add: truthy_def)
qed

text \<open>
  The example page with empty storage under a dark system scheme.
\<close>

theorem system_dark_applied_witness:
  "localStorage (example_page Map.empty True) ''theme'' = None
   \<and> prefersDark (example_page Map.empty True)
   \<and> (\<exists>st'. load (example_page Map.empty True) = Inr st'
         \<and> documentElement st' ''data-theme'' = Some ''dark''
         \<and> elements st' ''theme-toggle-checkbox'' =
             Some \<lparr>classList = [], attributes = Map.empty, checked = True\<rparr>)"
proof -
  have h: "localStorage (example_page Map.empty True) ''theme'' = None"
    "prefersDark (example_page Map.empty True)"
    by (simp_all add: example_page_def prefersDark_def)
  have e: "elements (example_page Map.empty True) ''theme-toggle-checkbox'' =
      Some \<lparr>classList = [], attributes = Map.empty, checked = False\<rparr>"
    by (simp add: example_page_def example_elements_def)
  obtain st1 where st1: "theme_init (example_page Map.empty True) = Inr st1"
    using theme_init_returns by blast
  from system_dark_applied [OF h] obtain st' c' where
    "load (example_page Map.empty True) = Inr st'"
    "documentElement st' ''data-theme'' = Some ''dark''"
    "elements st' ''theme-toggle-checkbox'' = Some c'" "checked c' = True"
    using e by auto
  moreover from load_theme_part [of "example_page Map.empty True"] st1
    theme_init_checkbox [OF st1] e h calculation(1)
  have "elements st' ''theme-toggle-checkbox'' =
      Some \<lparr>classList = [], attributes = Map.empty, checked = True\<rparr>"
    by (auto simp add: truthy_def)
  ultimately show ?thesis using h by simp
qed

text \<open>
  C8. Theme initialization reads \<^verbatim>\<open>theme\<close> once and makes no other storage call:
  storage is unchanged, and no element other than the checkbox changes. When the dark
  theme comes from the system scheme it is on the root while the stored theme is still
  absent. A whole page load makes no \<^verbatim>\<open>setItem\<close> on the key \<^verbatim>\<open>theme\<close> and leaves
  its value as it was, the sidebar's click handler never changes it, and
  \<open>toggleTheme\<close> makes exactly one \<^verbatim>\<open>setItem\<close> on it.
\<close>

theorem theme_init_no_write:
  "(\<exists>st'. theme_init st = Inr st' \<and> localStorage st' = localStorage st
      \<and> storage_log st' = storage_log st @ [GetItem ''theme'']
      \<and> (\<forall>i. i \<noteq> ''theme-toggle-checkbox'' \<longrightarrow> elements st' i = elements st i)
      \<and> (localStorage st ''theme'' = None \<and> prefersDark st \<longrightarrow>
            documentElement st' ''data-theme'' = Some ''dark''
          \<and> localStorage st' ''theme'' = None))
   \<and> (\<exists>st2 ops. load st = Inr st2 \<and> localStorage st2 ''theme'' = localStorage st ''theme''
      \<and> storage_log st2 = storage_log st @ ops \<and> (\<forall>v. SetItem ''theme'' v \<notin> set ops))
   \<and> storage_log (toggleTheme st) = storage_log st @ [SetItem ''theme'' (newTheme st)]
   \<and> (\<forall>x y z st'. sidebar_click x y z st = Inr st' \<longrightarrow>
         localStorage st' ''theme'' = localStorage st ''theme'')"
proof -
  obtain st' where st': "theme_init st = Inr st'" using theme_init_returns by blast
  have a: "\<exists>st'. theme_init st = Inr st' \<and> localStorage st' = localStorage st
      \<and> storage_log st' = storage_log st @ [GetItem ''theme'']
      \<and> (\<forall>i. i \<noteq> ''theme-toggle-checkbox'' \<longrightarrow> elements st' i = elements st i)
      \<and> (localStorage st ''theme'' = None \<and> prefersDark st \<longrightarrow>
            documentElement st' ''data-theme'' = Some ''dark''
          \<and> localStorage st' ''theme'' = None)"
    using st' theme_init_frame(1,2,4) [OF st'] theme_init_attribute [OF st']
    by (simp add: truthy_def)
  have b: "\<exists>st2 ops. load st = Inr st2 \<and> localStorage st2 ''theme'' = localStorage st ''theme''
      \<and> storage_log st2 = storage_log st @ ops \<and> (\<forall>v. SetItem ''theme'' v \<notin> set ops)"
    using load_log [of st] by auto
  have c: "storage_log (toggleTheme st) = storage_log st @ [SetItem ''theme'' (newTheme st)]"
    by (simp add: toggleTheme_def dom_defs)
  have d: "\<forall>x y z st'. sidebar_click x y z st = Inr st' \<longrightarrow>
         localStorage st' ''theme'' = localStorage st ''theme''"
    using sidebar_click_storage by blast
  show ?thesis
    apply (rule conjI)
     apply (rule a)
    apply (rule conjI)
     apply (rule b)
    apply (rule conjI)
     apply (rule c)
    apply (rule d)
    done
qed

text \<open>
  The example page with empty storage under a dark system scheme.
\<close>

theorem theme_init_no_write_witness:
  "localStorage (example_page Map.empty True) ''theme'' = None
   \<and> prefersDark (example_page Map.empty True)
   \<and> (\<exists>st'. theme_init (example_page Map.empty True) = Inr st'
        \<and> localStorage st' = Map.empty \<and> storage_log st' = [GetItem ''theme'']
        \<and> documentElement st' ''data-theme'' = Some ''dark'')"
proof -
  have h: "localStorage (example_page Map.empty True) ''theme'' = None"
    "prefersDark (example_page Map.empty True)"
    by (simp_all add: example_page_def prefersDark_def)
  from theme_init_no_write [of "example_page Map.empty True", THEN conjunct1] h
  obtain st' where "theme_init (example_page Map.empty True) = Inr st'"
    "localStorage st' = localStorage (example_page Map.empty True)"
    "storage_log st' = storage_log (example_page Map.empty True) @ [GetItem ''theme'']"
    "documentElement st' ''data-theme'' = Some ''dark''"
    by blast
  with h show ?thesis by (simp add: example_page_def)
qed

text \<open>
  C9. Every non-empty stored theme is \<^verbatim>\<open>data-theme\<close> after load, whether or not it
  is one of light and dark, and initialization checks the checkbox only when it is
  exactly \<^verbatim>\<open>dark\<close>. \<open>toggleTheme\<close> from any attribute other than \<^verbatim>\<open>dark\<close>, or
  from none, gives \<^verbatim>\<open>dark\<close>, and its result is always one of \<^verbatim>\<open>dark\<close> and
  \<^verbatim>\<open>light\<close>.
\<close>

theorem stored_theme_verbatim:
  "(\<forall>v. localStorage st ''theme'' = Some v \<and> v \<noteq> [] \<longrightarrow>
      (\<exists>st'. load st = Inr st' \<and> documentElement st' ''data-theme'' = Some v
         \<and> (\<forall>c. elements st ''theme-toggle-checkbox'' = Some c \<longrightarrow>
               elements st' ''theme-toggle-checkbox'' =
                 Some (c\<lparr>checked := checked c \<or> v = ''dark''\<rparr>))))
   \<and> (\<forall>v. documentElement st ''data-theme'' = Some v \<and> v \<noteq> ''dark'' \<longrightarrow>
         documentElement (toggleTheme st) ''data-theme'' = Some ''dark'')
   \<and> (documentElement st ''data-theme'' = None \<longrightarrow>
         documentElement (toggleTheme st) ''data-theme'' = Some ''dark'')
   \<and> (documentElement (toggleTheme st) ''data-theme'' = Some ''dark''
        \<or> documentElement (toggleTheme st) ''data-theme'' = Some ''light'')"
proof -
  from load_theme_part [of st] obtain st1 st2 where l: "theme_init st = Inr st1"
    "load st = Inr st2" "documentElement st2 = documentElement st1"
    "elements st2 ''theme-toggle-checkbox'' = elements st1 ''theme-toggle-checkbox''"
    by blast
  have a: "\<forall>v. localStorage st ''theme'' = Some v \<and> v \<noteq> [] \<longrightarrow>
      (\<exists>st'. load st = Inr st' \<and> documentElement st' ''data-theme'' = Some v
         \<and> (\<forall>c. elements st ''theme-toggle-checkbox'' = Some c \<longrightarrow>
               elements st' ''theme-toggle-checkbox'' =
                 Some (c\<lparr>checked := checked c \<or> v = ''dark''\<rparr>)))"
    using l theme_init_attribute [OF l(1)] theme_init_checkbox [OF l(1)]
    by (auto simp add: truthy_def)
  have b: "(\<forall>v. documentElement st ''data-theme'' = Some v \<and> v \<noteq> ''dark'' \<longrightarrow>
         documentElement (toggleTheme st) ''data-theme'' = Some ''dark'')
   \<and> (documentElement st ''data-theme'' = None \<longrightarrow>
         documentElement (toggleTheme st) ''data-theme'' = Some ''dark'')
   \<and> (documentElement (toggleTheme st) ''data-theme'' = Some ''dark''
        \<or> documentElement (toggleTheme st) ''data-theme'' = Some ''light'')"
    by (auto simp add: toggleTheme_def newTheme_def currentTheme_def truthy_def dom_defs)
  from a b show ?thesis by blast
qed

text \<open>
  A stored \<^verbatim>\<open>sepia\<close>: it is rendered as it is, the checkbox stays unchecked, and one
  toggle gives \<^verbatim>\<open>dark\<close>.
\<close>

theorem stored_theme_verbatim_witness:
  "localStorage (example_page [''theme'' \<mapsto> ''sepia''] True) ''theme'' = Some ''sepia''
   \<and> (\<exists>st'. load (example_page [''theme'' \<mapsto> ''sepia''] True) = Inr st'
        \<and> documentElement st' ''data-theme'' = Some ''sepia''
        \<and> elements st' ''theme-toggle-checkbox'' =
            Some \<lparr>classList = [], attributes = Map.empty, checked = False\<rparr>
        \<and> documentElement (toggleTheme st') ''data-theme'' = Some ''dark'')"
proof -
  have h: "localStorage (example_page [''theme'' \<mapsto> ''sepia''] True) ''theme'' = Some ''sepia''
      \<and> ''sepia'' \<noteq> []"
    by (simp add: example_page_def)
  have e: "elements (example_page [''theme'' \<mapsto> ''sepia''] True) ''theme-toggle-checkbox'' =
      Some \<lparr>classList = [], attributes = Map.empty, checked = False\<rparr>"
    by (simp add: example_page_def example_elements_def)
  from stored_theme_verbatim [of "example_page [''theme'' \<mapsto> ''sepia''] True", THEN conjunct1,
      THEN spec, THEN mp, OF h]
  obtain st' where s: "load (example_page [''theme'' \<mapsto> ''sepia''] True) = Inr st'"
    "documentElement st' ''data-theme'' = Some ''sepia''"
    "\<forall>c. elements (example_page [''theme'' \<mapsto> ''sepia''] True) ''theme-toggle-checkbox'' = Some c
       \<longrightarrow> elements st' ''theme-toggle-checkbox'' = Some (c\<lparr>checked := checked c \<or> ''sepia'' = ''dark''\<rparr>)"
    by blast
  from s(3) e have c: "elements st' ''theme-toggle-checkbox'' =
      Some \<lparr>classList = [], attributes = Map.empty, checked = False\<rparr>"
    by simp
  from stored_theme_verbatim [of st', THEN conjunct2, THEN conjunct1] s(2)
  have "documentElement (toggleTheme st') ''data-theme'' = Some ''dark''" by simp
  with s(1,2) c h show ?thesis by blast
qed

text \<open>
  C10. Sidebar initialization never raises and leaves storage as it was. With the three
  elements present and \<^verbatim>\<open>collapsed\<close> stored it reads \<^verbatim>\<open>sidebarState\<close> and writes
  \<^verbatim>\<open>collapsed\<close> back; with any other stored value it only reads; with an element
  missing it makes no storage call. A whole page load leaves storage as it was.
\<close>

theorem sidebar_init_keeps_storage:
  "\<exists>st'. sidebar_init st = Inr st' \<and> localStorage st' = localStorage st
     \<and> (elements st ''main-sidebar'' \<noteq> None \<and> elements st ''main-container'' \<noteq> None
          \<and> elements st ''sidebar-toggle-button'' \<noteq> None
          \<and> localStorage st ''sidebarState'' = Some ''collapsed'' \<longrightarrow>
            storage_log st' = storage_log st @
              [GetItem ''sidebarState'', SetItem ''sidebarState'' ''collapsed''])
     \<and> (elements st ''main-sidebar'' \<noteq> None \<and> elements st ''main-container'' \<noteq> None
          \<and> elements st ''sidebar-toggle-button'' \<noteq> None
          \<and> localStorage st ''sidebarState'' \<noteq> Some ''collapsed'' \<longrightarrow>
            storage_log st' = storage_log st @ [GetItem ''sidebarState''])
     \<and> (elements st ''main-sidebar'' = None \<or> elements st ''main-container'' = None
          \<or> elements st ''sidebar-toggle-button'' = None \<longrightarrow>
            storage_log st' = storage_log st)
     \<and> (\<exists>st2. load st = Inr st2 \<and> localStorage st2 = localStorage st)"
proof -
  from sidebar_init_log [of st] obtain st' where s: "sidebar_init st = Inr st'"
    "localStorage st' = localStorage st"
    "storage_log st' = storage_log st @
         (if elements st ''main-sidebar'' = None \<or> elements st ''main-container'' = None
             \<or> elements st ''sidebar-toggle-button'' = None then []
          else if localStorage st ''sidebarState'' = Some ''collapsed''
          then [GetItem ''sidebarState'', SetItem ''sidebarState'' ''collapsed'']
          else [GetItem ''sidebarState''])" by blast
  from load_theme_part [of st] have "\<exists>st2. load st = Inr st2 \<and> localStorage st2 = localStorage st"
    by blast
  with s show ?thesis by auto
qed

text \<open>
  The example page with \<^verbatim>\<open>collapsed\<close> stored.
\<close>

theorem sidebar_init_keeps_storage_witness:
  "\<exists>st'. sidebar_init (example_page [''sidebarState'' \<mapsto> ''collapsed''] False) = Inr st'
     \<and> localStorage st' ''sidebarState'' = Some ''collapsed''
     \<and> localStorage st' ''theme'' = None
     \<and> storage_log st' = [GetItem ''sidebarState'', SetItem ''sidebarState'' ''collapsed'']"
  using sidebar_init_keeps_storage [of "example_page [''sidebarState'' \<mapsto> ''collapsed''] False"]
  by (auto simp add: example_page_def example_elements_def)

end
